theory Spec2Isabelle
  imports
    Main
    "HOL-Library.Char_ord"
    "HOL-Library.List_Lexorder"
    "HOL-Library.Sublist"
    "HOL-Library.Multiset"
begin

section \<open>Strings and arrays of the host language\<close>

text \<open>
  A TypeScript string is modelled as a \<^typ>\<open>string\<close>: a list of characters, compared
  character by character through their codes, which is the order the default
  \<^verbatim>\<open>Array.prototype.sort\<close> uses on an array of strings. The theories
  \<^verbatim>\<open>Char_ord\<close> and \<^verbatim>\<open>List_Lexorder\<close> make that order the linear order of the
  type, so \<^const>\<open>sort\<close> on a \<^typ>\<open>string list\<close> is the model of \<^verbatim>\<open>arr.sort()\<close>.
  An optional or possibly undefined argument is an \<^typ>\<open>'a option\<close>, with
  \<^const>\<open>None\<close> for \<^verbatim>\<open>undefined\<close>.
\<close>

abbreviation (input) BSL :: char where "BSL \<equiv> CHR 0x5C"
abbreviation (input) TAB :: char where "TAB \<equiv> CHR 0x09"

text \<open>
  \<^verbatim>\<open>_.uniq(arr)\<close> of lodash walks the array from the left and keeps an element when it
  is not yet among the results: the first occurrence of every value survives, in the
  order of first occurrence.
\<close>

fun uniq_into :: "string list \<Rightarrow> string list \<Rightarrow> string list" where
  "uniq_into result [] = result"
| "uniq_into result (x # xs) =
     (if x \<in> set result then uniq_into result xs else uniq_into (result @ [x]) xs)"

definition uniq :: "string list \<Rightarrow> string list" where
  "uniq arr = uniq_into [] arr"

text \<open>
  The statement \<^verbatim>\<open>if (prefix) { output += prefix; }\<close> on a value of type
  \<^verbatim>\<open>string | undefined\<close>: the test is false for \<^verbatim>\<open>undefined\<close> and for the empty
  string.
\<close>

fun append_if_truthy :: "string \<Rightarrow> string option \<Rightarrow> string" where
  "append_if_truthy output None = output"
| "append_if_truthy output (Some p) = (if p \<noteq> [] then output @ p else output)"

text \<open>
  \<^verbatim>\<open>s.indexOf(p)\<close>: the least position at which \<^verbatim>\<open>p\<close> occurs in \<^verbatim>\<open>s\<close>, and
  \<^verbatim>\<open>-1\<close> when it occurs nowhere. The first argument counts the characters already
  passed.
\<close>

fun indexOf_from :: "nat \<Rightarrow> string \<Rightarrow> string \<Rightarrow> int" where
  "indexOf_from i [] p = (if p = [] then int i else - 1)"
| "indexOf_from i (c # s) p =
     (if prefix p (c # s) then int i else indexOf_from (Suc i) s p)"

definition indexOf :: "string \<Rightarrow> string \<Rightarrow> int" where
  "indexOf s p = indexOf_from 0 s p"

text \<open>
  \<^verbatim>\<open>s.split(sep)\<close> for a separator of one character: the pieces between the
  separators, at least one piece, the empty string giving one empty piece.
\<close>

fun split :: "char \<Rightarrow> string \<Rightarrow> string list" where
  "split sep [] = [[]]"
| "split sep (c # cs) =
     (if c = sep then [] # split sep cs
      else (case split sep cs of [] \<Rightarrow> [[c]] | w # ws \<Rightarrow> (c # w) # ws))"

text \<open>\<^verbatim>\<open>arr.pop()\<close> as a value: the last element, \<^verbatim>\<open>undefined\<close> on an empty array.\<close>

definition pop :: "string list \<Rightarrow> string option" where
  "pop arr = (if arr = [] then None else Some (last arr))"

text \<open>
  \<^verbatim>\<open>_.toLower\<close> of lodash turns \<^verbatim>\<open>undefined\<close> into the empty string and lowers
  every character of a string. On the characters of the model (codes below 256) the
  upper-case letters are \<^verbatim>\<open>A\<close> to \<^verbatim>\<open>Z\<close> and the Latin-1 capitals \<^verbatim>\<open>0xC0\<close> to
  \<^verbatim>\<open>0xDE\<close> without the multiplication sign \<^verbatim>\<open>0xD7\<close>; each has its lower-case form
  32 codes later.
\<close>

definition lower_char :: "char \<Rightarrow> char" where
  "lower_char c =
     (let n = (of_char c :: nat)
      in if (65 \<le> n \<and> n \<le> 90) \<or> (192 \<le> n \<and> n \<le> 222 \<and> n \<noteq> 215)
         then char_of (n + 32) else c)"

fun toLower :: "string option \<Rightarrow> string" where
  "toLower None = []"
| "toLower (Some s) = map lower_char s"

section \<open>CreateMakefile.ts: the string-list formatters\<close>

text \<open>
  \<^verbatim>\<open>createStringList(arr, prefix?)\<close>. The callback of \<^verbatim>\<open>sortedArray.map\<close> runs once
  per entry with its index and appends to \<^verbatim>\<open>output\<close>; \<^verbatim>\<open>n\<close> is
  \<^verbatim>\<open>sortedArray.length\<close>.
\<close>

definition createStringList_entry :: "string option \<Rightarrow> nat \<Rightarrow> string \<Rightarrow> string \<Rightarrow> nat \<Rightarrow> string" where
  "createStringList_entry pfx n output entry ind =
     (let output1 = append_if_truthy output pfx;
          output2 = output1 @ entry;
          output3 = (if int ind < int n - 1 then output2 @ [CHR '' '', BSL] else output2)
      in output3 @ ''\<newline>'')"

fun createStringList_loop :: "string option \<Rightarrow> nat \<Rightarrow> string \<Rightarrow> nat \<Rightarrow> string list \<Rightarrow> string" where
  "createStringList_loop pfx n output ind [] = output"
| "createStringList_loop pfx n output ind (entry # rest) =
     createStringList_loop pfx n (createStringList_entry pfx n output entry ind) (Suc ind) rest"

definition createStringList :: "string list \<Rightarrow> string option \<Rightarrow> string" where
  "createStringList arr pfx =
     (let sortedArray = sort (uniq arr)
      in createStringList_loop pfx (length sortedArray) [] 0 sortedArray)"

text \<open>\<^verbatim>\<open>createSingleLineStringList(arr, prefix?)\<close>: the same walk, one line.\<close>

definition createSingleLineStringList_entry :: "string option \<Rightarrow> string \<Rightarrow> string \<Rightarrow> string" where
  "createSingleLineStringList_entry pfx output entry =
     (let output1 = append_if_truthy output pfx
      in output1 @ entry @ '' '')"

definition createSingleLineStringList :: "string list \<Rightarrow> string option \<Rightarrow> string" where
  "createSingleLineStringList arr pfx =
     (let sortedArray = sort (uniq arr)
      in foldl (createSingleLineStringList_entry pfx) [] sortedArray)"

text \<open>
  The formatter as the specification words it: the entries without duplicates in
  ascending order, one line per entry made of the prefix and the entry, a space and a
  backslash closing every line but the last, a line feed after every line.
\<close>

definition prefix_text :: "string option \<Rightarrow> string" where
  "prefix_text pfx = (case pfx of None \<Rightarrow> [] | Some p \<Rightarrow> p)"

fun continued_lines :: "string list \<Rightarrow> string" where
  "continued_lines [] = []"
| "continued_lines [l] = l @ ''\<newline>''"
| "continued_lines (l # l' # ls) = l @ [CHR '' '', BSL] @ ''\<newline>'' @ continued_lines (l' # ls)"

section \<open>CreateMakefile.ts: prefixes and the toolchain path\<close>

text \<open>
  \<^verbatim>\<open>createPrefixWhenNoneExists(input, prefix)\<close>. The test \<^verbatim>\<open>!input\<close> holds for an
  absent input and for the empty string.
\<close>

definition createPrefixWhenNoneExists :: "string option \<Rightarrow> string \<Rightarrow> string" where
  "createPrefixWhenNoneExists input pfx =
     (case input of
        None \<Rightarrow> []
      | Some s \<Rightarrow>
          if s = [] \<or> length s = 0 then []
          else if indexOf s pfx \<ge> 0 then s
          else pfx @ s)"

text \<open>
  The toolchain path of \<^verbatim>\<open>MakeInfo.tools\<close> may be absent, a boolean (the
  configuration uses \<^verbatim>\<open>false\<close> for "not set") or a string.
\<close>

datatype PathSetting = Undefined | Boolean bool | Str string

record ToolChain =
  armToolchainPath :: PathSetting

fun setting_truthy :: "PathSetting \<Rightarrow> bool" where
  "setting_truthy Undefined = False"
| "setting_truthy (Boolean b) = b"
| "setting_truthy (Str s) = (s \<noteq> [])"

fun isString :: "PathSetting \<Rightarrow> bool" where
  "isString (Str s) = True"
| "isString _ = False"

text \<open>\<^verbatim>\<open>_.isEmpty\<close> on the values the setting can take: a boolean counts as empty.\<close>

fun isEmpty :: "PathSetting \<Rightarrow> bool" where
  "isEmpty (Str s) = (length s = 0)"
| "isEmpty _ = True"

fun path_text :: "PathSetting \<Rightarrow> string" where
  "path_text (Str s) = s"
| "path_text _ = []"

text \<open>
  The custom rules of \<^verbatim>\<open>MakeInfo\<close>: \<^verbatim>\<open>{command, rule, dependsOn?}\<close>.
\<close>

record CustomRule =
  command :: string
  rule :: string
  dependsOn :: "string option"

text \<open>
  \<^verbatim>\<open>MakeInfo\<close> is declared in \<^verbatim>\<open>types/MakeInfo\<close>; these are the fields the generator
  reads. A flag fragment that the configuration leaves out is \<^const>\<open>None\<close>, and so is
  a missing list of custom rules.
\<close>

record MakeInfo =
  target :: string
  optimization :: string
  cDefs :: "string list"
  cxxDefs :: "string list"
  asDefs :: "string list"
  cSources :: "string list"
  cxxSources :: "string list"
  asmSources :: "string list"
  cIncludes :: "string list"
  cpu :: "string option"
  fpu :: "string option"
  floatAbi :: "string option"
  cFlags :: "string list"
  cxxFlags :: "string list"
  assemblyFlags :: "string list"
  ldscript :: string
  libs :: "string list"
  libdir :: "string list"
  ldFlags :: "string list"
  targetMCU :: string
  tools :: ToolChain
  customMakefileRules :: "CustomRule list option"

text \<open>
  \<^verbatim>\<open>createGCCPathOutput(makeInfo)\<close>. \<^verbatim>\<open>fsPathToPosix\<close> comes from \<^verbatim>\<open>./Helpers\<close> and
  is a parameter here; it is applied to the setting when the setting is a string.
\<close>

definition createGCCPathOutput :: "(string \<Rightarrow> string) \<Rightarrow> MakeInfo \<Rightarrow> string" where
  \<open>createGCCPathOutput fsPathToPosix makeInfo =
     (let p = armToolchainPath (tools makeInfo)
      in if setting_truthy p \<and> isString p then
           (if setting_truthy p \<and> \<not> isEmpty p \<and> p \<noteq> Str ''.''
            then ''GCC_PATH="'' @ fsPathToPosix (path_text p)
            else [])
         else [])\<close>

section \<open>CreateMakefile.ts: custom rules and the Makefile template\<close>

text \<open>
  The block of one custom rule, the template literal \<^verbatim>\<open>newRule\<close>: it opens with a
  line feed and closes with a line feed and three tabs; \<^verbatim>\<open>dependsOn\<close> defaults to the
  empty string.
\<close>

definition newRule :: "CustomRule \<Rightarrow> string" where
  "newRule currentValue =
     concat [
       ''\<newline>'',
       ''#######################################\<newline>'',
       ''# '', command currentValue, ''\<newline>'',
       ''#######################################\<newline>'',
       command currentValue, '': '',
         (case dependsOn currentValue of None \<Rightarrow> [] | Some d \<Rightarrow> d), ''\<newline>'',
       [TAB], rule currentValue, ''\<newline>'',
       [TAB, TAB, TAB]]"

text \<open>
  \<^verbatim>\<open>customMakefileRules(makeInfo)\<close>: a \<^verbatim>\<open>reduce\<close> from the empty string when the list
  is there (an empty array is truthy), the empty string when it is not.
\<close>

definition customMakefileRules :: "MakeInfo \<Rightarrow> string" where
  "customMakefileRules makeInfo =
     (case MakeInfo.customMakefileRules makeInfo of
        Some rules \<Rightarrow>
          foldl (\<lambda>previousString currentValue.
                   previousString @ ''\<newline>\<newline>'' @ newRule currentValue) [] rules
      | None \<Rightarrow> [])"

text \<open>
  A line of the template is its text and the line feed that ends it;
  \<open>lines_text\<close> is the text of a run of such lines.
\<close>

definition line :: "string \<Rightarrow> string" where
  "line l = l @ ''\<newline>''"

definition lines_text :: "string list \<Rightarrow> string" where
  "lines_text ls = concat (map line ls)"

text \<open>
  The template literal of \<^verbatim>\<open>createMakefile\<close>, cut at the blocks it interpolates
  (the calls of \<^verbatim>\<open>createStringList\<close> and of \<^verbatim>\<open>customMakefileRules\<close>). Each piece is the
  list of the template lines between two blocks, the interpolations of single values
  in their places. A block stands alone on its template line, so the line feed after
  it closes an empty line, the first of the next piece.
  \<^verbatim>\<open>STM32_ENVIRONMENT_FILE_NAME\<close> and \<^verbatim>\<open>makefileName\<close> are constants of
  \<^verbatim>\<open>./Definitions\<close> and are parameters here.
\<close>

definition makefile_lines_head :: "string \<Rightarrow> string \<Rightarrow> MakeInfo \<Rightarrow> string list" where
  \<open>makefile_lines_head STM32_ENVIRONMENT_FILE_NAME makefileName makeInfo =
    [
      ''##########################################################################################################################'',
      ''# File automatically-generated by STM32forVSCode'',
      ''##########################################################################################################################'',
      [],
      ''# ------------------------------------------------'',
      ''# Makefile used by STM32 For VSCode'',
      ''# WARNING: This file can be overwritten when project settings change'',
      ''# This Makefile can be used for CI/CD purposes to use it please make sure'',
      ''# you setup an environment file with the following name: '' @ STM32_ENVIRONMENT_FILE_NAME @ ''.'',
      ''# This file is sourced at the start of this Makefile and will be used to set'',
      ''# compiler paths and other tooling paths.'',
      ''# Do note that most variables can also be overwritten when invoking make'',
      ''# e.g to change the optimization flags'',
      ''# make -j 16 -f '' @ makefileName @ '' DEBUG=0 OPTIMIZATION=-Os'',
      ''#'',
      ''# ChangeLog :'',
      ''#'' @ [TAB] @ ''2017-02-10 - Several enhancements + project update mode'',
      ''#   2015-07-22 - first version'',
      ''#   2023-06-16 - Added .stm32env file inclusion'',
      ''#   2023-07-14 - Added file directory in the build folder'',
      ''#'' @ [TAB] @ [TAB] @ [TAB] @ [TAB] @ [TAB] @ [TAB] @ [TAB] @ '' - Added debug and release build options'',
      ''#'' @ [TAB] @ [TAB] @ [TAB] @ [TAB] @ [TAB] @ [TAB] @ [TAB] @ '' - Added multi platform support'',
      ''#'' @ [TAB] @ [TAB] @ [TAB] @ [TAB] @ [TAB] @ [TAB] @ [TAB] @ '' - Added help target'',
      ''#'' @ [TAB] @ [TAB] @ [TAB] @ [TAB] @ [TAB] @ [TAB] @ [TAB] @ '' - Added more documentation'',
      ''# ------------------------------------------------'',
      [],
      ''######################################'',
      ''# Environment Variables'',
      ''######################################'',
      ''# Imports the environment file in which the compiler and other tooling is set'',
      ''# for the build machine.'',
      ''# This can also be used to overwrite some makefile variables'',
      ''include '' @ STM32_ENVIRONMENT_FILE_NAME,
      [],
      ''######################################'',
      ''# Target '',
      ''######################################'',
      ''# This is the name of the embedded target which will be build'',
      ''# The final file name will also have debug or release appended to it.'',
      ''TARGET ?= '' @ target makeInfo,
      [],
      ''#######################################'',
      ''# Build directories'',
      ''#######################################'',
      ''# Build path can be overwritten when calling make or setting the environment variable'',
      ''# in '' @ STM32_ENVIRONMENT_FILE_NAME,
      [],
      ''BUILD_DIRECTORY ?= build'',
      [],
      [],
      ''######################################'',
      ''# Optimization'',
      ''######################################'',
      ''# Optimization is switched based upon the DEBUG variable. If set to 1'',
      ''# it will be build in debug mode with the Og optimization flag (optimized for debugging).'',
      ''# If set to 0 (false) then by default the variable is used in the configuration yaml'',
      ''# This can also be overwritten using the environment variable or by overwriting it'',
      ''# by calling make with the OPTIMIZATION variable e.g.: '',
      ''# make -f '' @ makefileName @ '' -j 16  OPTIMIZATION=Os'',
      [],
      ''# variable which determines if it is a debug build'',
      ''DEBUG ?= 1'',
      [],
      ''# debug flags when debug is defined'',
      ''OPTIMIZATION ?= '' @ optimization makeInfo,
      [],
      ''ifeq ($(DEBUG),1)'',
      [TAB] @ ''# Sets debugging optimization -Og and the debug information output'',
      [TAB] @ ''OPTIMIZATION_FLAGS += -Og -g -gdwarf -ggdb'',
      [TAB] @ ''TARGET += -debug '',
      [TAB] @ ''RELEASE_DIRECTORY ?= $(BUILD_DIRECTORY)/debug'',
      ''else'',
      [TAB] @ ''OPTIMIZATION_FLAGS += $(OPTIMIZATION)'',
      [TAB] @ ''TARGET += -release'',
      [TAB] @ ''RELEASE_DIRECTORY ?= $(BUILD_DIRECTORY)/release'',
      ''endif'',
      [],
      ''######################################'',
      ''# Definitions'',
      ''######################################'',
      [],
      ''# C definitions'',
      ''C_DEFINITIONS =  '' @ [BSL]]\<close>

definition makefile_lines_cxx_definitions :: "string list" where
  \<open>makefile_lines_cxx_definitions =
    [
      [],
      [],
      ''# C++ definitions'',
      ''CXX_DEFINITIONS =  '' @ [BSL]]\<close>

definition makefile_lines_as_definitions :: "string list" where
  \<open>makefile_lines_as_definitions =
    [
      [],
      [],
      ''# Assembly definitions'',
      ''AS_DEFINITIONS =  '' @ [BSL]]\<close>

definition makefile_lines_c_sources :: "string list" where
  \<open>makefile_lines_c_sources =
    [
      [],
      [],
      ''######################################'',
      ''# Source Files'',
      ''######################################'',
      [],
      [],
      ''# C sources'',
      ''C_SOURCES +=  '' @ [BSL]]\<close>

definition makefile_lines_cxx_sources :: "string list" where
  \<open>makefile_lines_cxx_sources =
    [
      [],
      [],
      ''CXX_SOURCES += '' @ [BSL]]\<close>

definition makefile_lines_as_sources :: "string list" where
  \<open>makefile_lines_as_sources =
    [
      [],
      [],
      ''# ASM sources'',
      ''AS_SOURCES +=  '' @ [BSL]]\<close>

definition makefile_lines_c_includes :: "string list" where
  \<open>makefile_lines_c_includes =
    [
      [],
      [],
      [],
      ''######################################'',
      ''# Include Directories'',
      ''######################################'',
      ''# AS includes'',
      ''AS_INCLUDES = '' @ [BSL],
      [],
      ''# C includes'',
      ''C_INCLUDES =  '' @ [BSL]]\<close>

definition makefile_lines_flags :: "MakeInfo \<Rightarrow> string list" where
  \<open>makefile_lines_flags makeInfo =
    [
      [],
      [],
      [],
      ''######################################'',
      ''# Target System Flags'',
      ''######################################'',
      ''# The specific flags for the target system'',
      ''# This sets things like hardware floating point and'',
      ''# which version a specific Cortex-M processor is.'',
      [],
      ''# cpu'',
      ''CPU = '' @ createPrefixWhenNoneExists (cpu makeInfo) ''-mcpu='',
      [],
      ''# fpu'',
      ''FPU = '' @ createPrefixWhenNoneExists (fpu makeInfo) ''-mfpu='',
      [],
      ''# float-abi'',
      ''FLOAT-ABI = '' @ createPrefixWhenNoneExists (floatAbi makeInfo) ''-mfloat-abi='',
      [],
      ''# mcu'',
      ''MCU_FLAGS = $(CPU) -mthumb $(FPU) $(FLOAT-ABI)'',
      [],
      [],
      ''######################################'',
      ''# C and CPP Flags'',
      ''######################################'',
      [],
      ''# additional flags provided by the STM32 for VSCode configuration file'',
      ''ADDITIONAL_C_FLAGS := '' @ createSingleLineStringList (cFlags makeInfo) None,
      ''ADDITIONAL_CXX_FLAGS := '' @ createSingleLineStringList (cxxFlags makeInfo) None,
      ''ADDITIONAL_AS_FLAGS := '' @ createSingleLineStringList (assemblyFlags makeInfo) None,
      [],
      ''# Provides dependency information about header files'',
      ''# This is used to recompile when a source file depends on'',
      ''# information from a header file'',
      ''DEPENDENCY_FLAGS = -MMD -MP -MF"$(@:%.o=%.d)"'',
      [],
      ''# Output a list file for the compiled source file.'',
      ''# This is a representative of the source code in assembly'',
      ''ASSEMBLER_LIST_OUTPUT_FLAG = -Wa,-a,-ad,-alms=$(@D)/$($(notdir $@):%.o=%.lst)'',
      [],
      ''# Combining the compilation flags with language specific flags and MCU specific flags'',
      ''C_FLAGS = '' @ [BSL],
      [TAB] @ ''$(MCU_FLAGS) '' @ [BSL],
      [TAB] @ ''$(C_DEFINITIONS) '' @ [BSL],
      [TAB] @ ''$(C_INCLUDES) '' @ [BSL],
      [TAB] @ ''$(OPTIMIZATION_FLAGS) '' @ [BSL],
      [TAB] @ ''$(DEPENDENCY_FLAGS) '' @ [BSL],
      [TAB] @ ''$(ADDITIONAL_C_FLAGS) '' @ [BSL],
      [TAB] @ ''$(ASSEMBLER_LIST_OUTPUT_FLAG)'',
      [],
      ''CXX_FLAGS = '' @ [BSL] @ '' '',
      [TAB] @ ''$(MCU_FLAGS) '' @ [BSL],
      [TAB] @ ''$(CXX_DEFINITIONS) '' @ [BSL],
      [TAB] @ ''$(C_INCLUDES) '' @ [BSL],
      [TAB] @ ''$(OPTIMIZATION_FLAGS) '' @ [BSL],
      [TAB] @ ''$(DEPENDENCY_FLAGS) '' @ [BSL],
      [TAB] @ ''$(ADDITIONAL_CXX_FLAGS) '' @ [BSL],
      [TAB] @ ''$(ASSEMBLER_LIST_OUTPUT_FLAG)'',
      [],
      ''AS_FLAGS = $(C_FLAGS) $(AS_DEFINITIONS) $(ADDITIONAL_AS_FLAGS)'',
      [],
      ''######################################'',
      ''# Linker Flags'',
      ''######################################'',
      ''# linker script. This script will determine where certain sections will'',
      ''# be place in memory.'',
      ''# For a good reference look at: https://blog.thea.codes/the-most-thoroughly-commented-linker-script/'',
      ''LINKER_SCRIPT := -T'' @ ldscript makeInfo,
      [],
      ''# libraries'',
      ''LIBRARIES := '' @ [BSL]]\<close>

definition makefile_lines_library_directories :: "string list" where
  \<open>makefile_lines_library_directories =
    [
      [],
      [],
      ''# library directories'',
      ''LIBRARY_DIRECTORIES := '' @ [BSL]]\<close>

definition makefile_lines_tools_and_rules :: "string \<Rightarrow> string \<Rightarrow> MakeInfo \<Rightarrow> string list" where
  \<open>makefile_lines_tools_and_rules STM32_ENVIRONMENT_FILE_NAME makefileName makeInfo =
    [
      [],
      [],
      ''# Additional linker flags Flags from the yaml configuration file'',
      ''# can be overwritten in the environment file'',
      ''ADDITIONAL_LINKER_FLAGS ?= '' @ createSingleLineStringList (ldFlags makeInfo) None,
      [],
      ''# Flags for outputting a map file'',
      ''# -Wl,-Map= flag will output the map file to the specified file'',
      ''# --cref will generate a cross reference table in the map file'',
      ''LINKER_MAP_FLAGS ?= -Wl,-Map=$(RELEASE_DIRECTORY)/$(TARGET).map,--cref'',
      [],
      ''# Flags for cleaning up code at link time'',
      ''# --gc-sections will eliminate dead code e.g. unused functions'',
      ''LINKER_CLEAN_UP_FLAGS ?= -Wl,--gc-sections'',
      [],
      ''LINKER_FLAGS = '' @ [BSL],
      [TAB] @ ''$(MCU_FLAGS) '' @ [BSL],
      [TAB] @ ''$(LINKER_SCRIPT) '' @ [BSL],
      [TAB] @ ''$(LIBRARY_DIRECTORIES) '' @ [BSL],
      [TAB] @ ''$(LIBRARIES) '' @ [BSL],
      [TAB] @ ''$(LINKER_MAP_FLAGS) '' @ [BSL],
      [TAB] @ ''$(LINKER_CLEAN_UP_FLAGS)'',
      [],
      ''#######################################'',
      ''# Tools'',
      ''#######################################'',
      ''ARM_PREFIX = arm-none-eabi-'',
      ''POSTFIX = "'',
      ''PREFIX = "'',
      ''# The gcc compiler bin path can be defined in the make command via ARM_GCC_PATH variable (e.g.: make ARM_GCC_PATH=xxx)'',
      ''# or it can be added to the PATH environment variable.'',
      ''# By default the variable be used from the environment file: '' @ STM32_ENVIRONMENT_FILE_NAME @ ''.'',
      ''# if it is not defined '',
      [],
      ''ifdef ARM_GCC_PATH'',
      [TAB] @ [TAB] @ ''CC = $(PREFIX)$(ARM_GCC_PATH)/$(ARM_PREFIX)gcc$(POSTFIX)'',
      [TAB] @ [TAB] @ ''CXX = $(PREFIX)$(ARM_GCC_PATH)/$(ARM_PREFIX)g++$(POSTFIX)'',
      [TAB] @ [TAB] @ ''AS = $(PREFIX)$(ARM_GCC_PATH)/$(ARM_PREFIX)gcc$(POSTFIX) -x assembler-with-cpp'',
      [TAB] @ [TAB] @ ''CP = $(PREFIX)$(ARM_GCC_PATH)/$(ARM_PREFIX)objcopy$(POSTFIX)'',
      [TAB] @ [TAB] @ ''SZ = $(PREFIX)$(ARM_GCC_PATH)/$(ARM_PREFIX)size$(POSTFIX)'',
      ''else'',
      [TAB] @ ''CC ?= $(ARM_PREFIX)gcc'',
      [TAB] @ ''CXX ?= $(ARM_PREFIX)g++$'',
      [TAB] @ ''AS ?= $(ARM_PREFIX)gcc -x assembler-with-cpp'',
      [TAB] @ ''CP ?= $(ARM_PREFIX)objcopy'',
      [TAB] @ ''SZ ?= $(ARM_PREFIX)size'',
      ''endif'',
      [],
      ''HEX = $(CP) -O ihex'',
      ''BIN = $(CP) -O binary -S'',
      [],
      ''# Flash and debug tools'',
      ''# Default is openocd however will be gotten from the '',
      ''OPENOCD ?= openocd'',
      [],
      ''REMOVE_DIRECTORY_COMMAND = rm -fR'',
      ''MKDIR_COMMAND = mkdir'',
      ''ifeq ($(OS),Windows_NT)'',
      [TAB] @ ''REMOVE_DIRECTORY_COMMAND = cmd /c rd /s /q'',
      ''else'',
      [TAB] @ ''MKDIR_COMMAND += -p'',
      ''endif'',
      [],
      ''#######################################'',
      ''# Build rules '',
      ''#######################################'',
      [],
      ''# Create object list'',
      ''# Create object list'',
      ''OBJECTS = $(addprefix $(RELEASE_DIRECTORY)/,$(addsuffix .o,$(basename $(C_SOURCES))))'',
      ''# objects for the different C++ file extensions'',
      ''OBJECTS += $(addprefix $(RELEASE_DIRECTORY)/,$(addsuffix .o,$(basename $(CXX_SOURCES))))'',
      ''# Objects for assembly code'',
      ''OBJECTS += $(addprefix $(RELEASE_DIRECTORY)/,$(addsuffix .o,$(basename $(AS_SOURCES))))'',
      [],
      ''# Dependency files'',
      ''DEPENDENCY_FILES = $(OBJECTS:.o=.d)'',
      [],
      [],
      ''# the tree of folders which needs to be present based on the object files'',
      ''BUILD_TREE = $(sort $(dir $(OBJECTS)))'',
      [],
      [],
      [],
      ''#######################################'',
      ''# Build targets'',
      ''#######################################'',
      ''# default action: build all'',
      ''.PHONY: all'',
      ''all: $(BUILD_DIR)/$(TARGET).elf $(BUILD_DIR)/$(TARGET).hex $(BUILD_DIR)/$(TARGET).bin'',
      [],
      ''# Makes the build directory'',
      ''$(BUILD_DIRECTORY):'',
      [TAB] @ ''$(MKDIR_COMMAND) $@'',
      [],
      ''# Makes the release folder'',
      ''$(RELEASE_DIRECTORY): | $(BUILD_DIRECTORY)'',
      [TAB] @ ''$(MKDIR_COMMAND) $@'',
      [],
      ''$(BUILD_TREE):'',
      [TAB] @ ''$(MKDIR_COMMAND) $@'',
      [],
      [],
      ''#######################################'',
      ''# Build Firmware'',
      ''#######################################'',
      [],
      ''FINAL_TARGET_NAME = $(RELEASE_DIRECTORY)/$(TARGET)'',
      ''ELF_TARGET = $(FINAL_TARGET_NAME).elf'',
      [],
      ''$(FINAL_TARGET_NAME).elf: $(OBJECTS) '' @ makefileName @ '' '',
      [TAB] @ ''$(CC) $(OBJECTS) $(LDFLAGS) -o $@'',
      [TAB] @ ''$(SZ) $@'',
      [],
      ''$(FINAL_TARGET_NAME).hex: $(FINAL_TARGET_NAME).elf '',
      [TAB] @ ''$(HEX) $< $@'',
      [],
      ''$(FINAL_TARGET_NAME).bin: $(FINAL_TARGET_NAME).elf '',
      [TAB] @ ''$(BIN) $< $@'',
      [],
      [],
      ''#######################################'',
      ''# Build rules'',
      ''#######################################'',
      [],
      ''sourcefile = $(patsubst $(RELEASE_FOLDER)/%.o,%.c,$(1))'',
      ''# Rules for creating the object files from the source files'',
      ''# c files'',
      ''$(RELEASE_DIRECTORY)/%.o: %.c $(RELEASE_DIRECTORY)/%.d | $(BUILD_TREE)'',
      [TAB] @ ''$(CC) $(C_FLAGS) -c $< -o $@'',
      [],
      ''# cpp files'',
      ''$(RELEASE_DIRECTORY)/%.o: %.cpp $(RELEASE_DIRECTORY)/%.d | $(BUILD_TREE)'',
      [TAB] @ ''$(CXX) $(CXX_FLAGS) -c $< -o $@'',
      ''$(RELEASE_DIRECTORY)/%.o: %.cc $(RELEASE_DIRECTORY)/%.d | $(BUILD_TREE)'',
      [TAB] @ ''$(CXX) $(CXX_FLAGS) -c $< -o $@'',
      ''$(RELEASE_DIRECTORY)/%.o: %.cp $(RELEASE_DIRECTORY)/%.d | $(BUILD_TREE)'',
      [TAB] @ ''$(CXX) $(CXX_FLAGS) -c $< -o $@'',
      ''$(RELEASE_DIRECTORY)/%.o: %.CPP $(RELEASE_DIRECTORY)/%.d | $(BUILD_TREE)'',
      [TAB] @ ''$(CXX) $(CXX_FLAGS) -c $< -o $@'',
      ''$(RELEASE_DIRECTORY)/%.o: %.c++ $(RELEASE_DIRECTORY)/%.d | $(BUILD_TREE)'',
      [TAB] @ ''$(CXX) $(CXX_FLAGS) -c $< -o $@'',
      ''$(RELEASE_DIRECTORY)/%.o: %.C++ $(RELEASE_DIRECTORY)/%.d | $(BUILD_TREE)'',
      [TAB] @ ''$(CXX) $(CXX_FLAGS) -c $< -o $@'',
      [],
      ''# assembly files'',
      ''$(RELEASE_DIRECTORY)/%.o: %.s $(RELEASE_DIRECTORY)/%.d | $(BUILD_TREE)'',
      [TAB] @ ''$(CXX) $(CXX_FLAGS) -c $< -o $@'',
      ''$(RELEASE_DIRECTORY)/%.o: %.S $(RELEASE_DIRECTORY)/%.d | $(BUILD_TREE)'',
      [TAB] @ ''$(CXX) $(CXX_FLAGS) -c $< -o $@'',
      [],
      ''#######################################'',
      ''# Build targets'',
      ''#######################################'',
      ''# Makes the build directory'',
      ''$(BUILD_DIRECTORY):'',
      [TAB] @ ''$(MKDIR_COMMAND) $@'',
      [],
      ''# Makes the release folder'',
      ''$(RELEASE_DIRECTORY): | $(BUILD_DIRECTORY)'',
      [TAB] @ ''$(MKDIR_COMMAND) $@'',
      [],
      ''$(BUILD_TREE):'',
      [TAB] @ ''$(MKDIR_COMMAND) $@'',
      [],
      ''#######################################'',
      ''# All'',
      ''#######################################'',
      ''# default action: build all'',
      ''.PHONY: all'',
      ''all: $(FINAL_TARGET_NAME).elf $(FINAL_TARGET_NAME).hex $(FINAL_TARGET_NAME).bin'',
      [],
      ''#######################################'',
      ''# flash'',
      ''#######################################'',
      ''flash: $(FINAL_TARGET_NAME).elf'',
      [TAB] @ ''$(OPENOCD) -f ./openocd.cfg -c "program $(FINAL_TARGET_NAME).elf verify reset exit"'',
      [],
      ''#######################################'',
      ''# erase'',
      ''#######################################'',
      ''erase: $(BUILD_DIR)/$(TARGET).elf'',
      [TAB] @ ''$(OPENOCD) -f ./openocd.cfg -c "init; reset halt; '' @ targetMCU makeInfo @ '' mass_erase 0; exit"'',
      [],
      ''#######################################'',
      ''# clean up'',
      ''#######################################'',
      [],
      ''clean:'',
      [TAB] @ ''$(REMOVE_DIRECTORY_COMMAND) $(BUILD_DIR)'',
      [],
      ''#######################################'',
      ''# custom makefile rules'',
      ''#######################################'',
      []]\<close>

definition makefile_lines_dependencies :: "string list" where
  \<open>makefile_lines_dependencies =
    [
      [],
      [TAB],
      ''#######################################'',
      ''# dependencies'',
      ''#######################################'',
      ''-include $(wildcard $(RELEASE_DIRECTORY)/*.d)'',
      []]\<close>

text \<open>
  \<^verbatim>\<open>createMakefile(makeInfo)\<close>: the pieces of the template and the blocks in the order
  of the template literal; the last line of the template has no line feed.
\<close>

definition createMakefile :: "string \<Rightarrow> string \<Rightarrow> MakeInfo \<Rightarrow> string" where
  \<open>createMakefile STM32_ENVIRONMENT_FILE_NAME makefileName makeInfo =
    concat [
      lines_text (makefile_lines_head STM32_ENVIRONMENT_FILE_NAME makefileName makeInfo),
      createStringList (cDefs makeInfo) (Some ''-D''),
      lines_text makefile_lines_cxx_definitions,
      createStringList (cxxDefs makeInfo) (Some ''-D''),
      lines_text makefile_lines_as_definitions,
      createStringList (asDefs makeInfo) (Some ''-D''),
      lines_text makefile_lines_c_sources,
      createStringList (MakeInfo.cSources makeInfo) None,
      lines_text makefile_lines_cxx_sources,
      createStringList (MakeInfo.cxxSources makeInfo) None,
      lines_text makefile_lines_as_sources,
      createStringList (asmSources makeInfo) None,
      lines_text makefile_lines_c_includes,
      createStringList (cIncludes makeInfo) (Some ''-I''),
      lines_text (makefile_lines_flags makeInfo),
      createStringList (libs makeInfo) (Some ''-l''),
      lines_text makefile_lines_library_directories,
      createStringList (libdir makeInfo) (Some ''-L''),
      lines_text (makefile_lines_tools_and_rules STM32_ENVIRONMENT_FILE_NAME makefileName makeInfo),
      customMakefileRules makeInfo,
      lines_text makefile_lines_dependencies,
      ''# *** EOF ***'']\<close>

section \<open>Sorting scanned files into buckets\<close>

text \<open>
  An array of strings as the object it is at run time: its elements, and the named
  properties that code may attach to it besides the elements.
\<close>

record StringArray =
  elements :: "string list"
  named :: "string \<rightharpoonup> string list"

definition empty_array :: StringArray where
  "empty_array = \<lparr>elements = [], named = Map.empty\<rparr>"

definition push :: "StringArray \<Rightarrow> string \<Rightarrow> StringArray" where
  "push arr x = arr\<lparr>elements := elements arr @ [x]\<rparr>"

text \<open>
  \<^verbatim>\<open>_.set(object, key, value)\<close> with a key that is a plain name assigns
  \<^verbatim>\<open>object[key] = value\<close>. On an array and a key that is no index this attaches a
  named property and leaves the elements alone.
\<close>

definition lodash_set :: "StringArray \<Rightarrow> string \<Rightarrow> string list \<Rightarrow> StringArray" where
  "lodash_set object key v = object\<lparr>named := (named object)(key \<mapsto> v)\<rparr>"

definition array_sort :: "StringArray \<Rightarrow> StringArray" where
  "array_sort arr = arr\<lparr>elements := sort (elements arr)\<rparr>"

text \<open>
  \<^verbatim>\<open>class BuildFiles\<close> is declared in \<^verbatim>\<open>types/MakeInfo\<close>; \<^verbatim>\<open>sortFiles\<close> uses these
  four array fields of it, each empty in a new object.
\<close>

record BuildFiles =
  cSources :: StringArray
  cxxSources :: StringArray
  assemblySources :: StringArray
  libraryDirectories :: StringArray

definition new_BuildFiles :: BuildFiles where
  "new_BuildFiles =
     \<lparr>cSources = empty_array, cxxSources = empty_array,
      assemblySources = empty_array, libraryDirectories = empty_array\<rparr>"

text \<open>
  The extension of an entry: \<^verbatim>\<open>_.toLower(entry.split('.').pop())\<close>.
\<close>

definition extension_of :: "string \<Rightarrow> string" where
  "extension_of entry = toLower (pop (split (CHR ''.'') entry))"

text \<open>
  One call of the callback of \<^verbatim>\<open>_.map(list, ...)\<close> in \<^verbatim>\<open>sortFiles\<close>.
  \<^verbatim>\<open>path.dirname\<close> (of \<^verbatim>\<open>path.posix\<close>) is a library function of the platform and is
  a parameter here.
\<close>

definition sortFiles_entry :: "(string \<Rightarrow> string) \<Rightarrow> BuildFiles \<Rightarrow> string \<Rightarrow> BuildFiles" where
  "sortFiles_entry dirname output entry =
     (let extension = extension_of entry
      in if extension = ''cpp'' \<or> extension = ''cxx'' \<or> extension = ''cc''
           then output\<lparr>cxxSources := push (cxxSources output) entry\<rparr>
         else if extension = ''c''
           then output\<lparr>cSources := push (cSources output) entry\<rparr>
         else if extension = ''h'' \<or> extension = ''hpp''
           then output
         else if extension = ''s''
           then output\<lparr>assemblySources := push (assemblySources output) entry\<rparr>
         else if extension = ''a''
           then output\<lparr>libraryDirectories := push (libraryDirectories output) (dirname entry)\<rparr>
         else output)"

text \<open>
  One call of the callback of \<^verbatim>\<open>_.forEach(output, (entry, key) => ...)\<close>: every field
  of a \<^verbatim>\<open>BuildFiles\<close> is an array, so the test \<^verbatim>\<open>_.isArray(entry)\<close> holds, and the
  body runs \<^verbatim>\<open>_.set(entry, key, _.uniq(entry))\<close> and then \<^verbatim>\<open>entry.sort()\<close> on the
  array held by the field.
\<close>

definition sortFiles_tidy :: "string \<Rightarrow> StringArray \<Rightarrow> StringArray" where
  "sortFiles_tidy key entry = array_sort (lodash_set entry key (uniq (elements entry)))"

definition sortFiles :: "(string \<Rightarrow> string) \<Rightarrow> string list \<Rightarrow> BuildFiles" where
  "sortFiles dirname list =
     (let output = foldl (sortFiles_entry dirname) new_BuildFiles list
      in \<lparr>cSources = sortFiles_tidy ''cSources'' (cSources output),
          cxxSources = sortFiles_tidy ''cxxSources'' (cxxSources output),
          assemblySources = sortFiles_tidy ''assemblySources'' (assemblySources output),
          libraryDirectories = sortFiles_tidy ''libraryDirectories'' (libraryDirectories output)\<rparr>)"

section \<open>getCubeMakefileInfo: extraction from Makefile text\<close>

text \<open>
  The module \<^verbatim>\<open>getInfo/getCubeMakefileInfo\<close> is not among the sources; its tests are.
  The functions of this section follow the specification, and the values that the
  tests expect are checked against them below.
\<close>

definition is_space :: "char \<Rightarrow> bool" where
  "is_space c = (c = CHR '' '' \<or> c = TAB \<or> c = CHR ''\<newline>'' \<or> c = CHR 0x0D)"

definition trim :: "string \<Rightarrow> string" where
  "trim s = rev (dropWhile is_space (rev (dropWhile is_space s)))"

text \<open>
  Modelled from the spec: \<^verbatim>\<open>removePrefixes\<close>, whose body is missing. Section 4.2:
  given a list of prefixed tokens and the prefix, strip exactly one leading occurrence
  of the prefix from each entry and leave the remainder intact; an entry without the
  prefix passes through unchanged.
\<close>

definition removePrefix :: "string \<Rightarrow> string \<Rightarrow> string" where
  "removePrefix pfx entry = (if prefix pfx entry then drop (length pfx) entry else entry)"

definition removePrefixes :: "string list \<Rightarrow> string \<Rightarrow> string list" where
  "removePrefixes information pfx = map (removePrefix pfx) information"

text \<open>
  Modelled from the spec: the search for the assignment of a variable, which the
  extraction rules share and whose code is missing. Section 4.5 and section 6: the key
  is matched without regard to case against the common assignment syntaxes. A line
  assigns to \<open>name\<close> when, after leading blanks, it starts with \<open>name\<close> in any case,
  followed by optional blanks and an assignment operator; the value is the rest of the
  line. The first such line of the text counts. Section 6 names the operators \<^verbatim>\<open>=\<close>
  and \<^verbatim>\<open>+=\<close>, section 4.5 speaks of the common syntaxes without listing them: the
  operators that the rules accept are the parameter \<open>ops\<close>, tried in their order.
\<close>

definition text_lines :: "string \<Rightarrow> string list" where
  "text_lines makefile = split (CHR ''\<newline>'') makefile"

fun strip_operator :: "string list \<Rightarrow> string \<Rightarrow> string option" where
  "strip_operator [] x = None"
| "strip_operator (op # ops) x =
     (if prefix op x then Some (drop (length op) x) else strip_operator ops x)"

definition assignment_value :: "string list \<Rightarrow> string \<Rightarrow> string \<Rightarrow> string option" where
  "assignment_value ops name l =
     (let l' = dropWhile is_space l
      in if map lower_char (take (length name) l') = map lower_char name
         then strip_operator ops (dropWhile is_space (drop (length name) l'))
         else None)"

fun find_assignment ::
  "string list \<Rightarrow> string \<Rightarrow> string list \<Rightarrow> (string \<times> string list) option" where
  "find_assignment ops name [] = None"
| "find_assignment ops name (l # ls) =
     (case assignment_value ops name l of
        Some v \<Rightarrow> Some (v, ls)
      | None \<Rightarrow> find_assignment ops name ls)"

text \<open>
  Modelled from the spec: \<^verbatim>\<open>extractMultiLineInfo\<close>, whose body is missing.
  Section 4.5: locate the assignment, then collect the continuation lines that follow
  (lines joined by a trailing continuation marker, the backslash) until a line without
  the marker is reached; each continuation line is trimmed and is one entry; the result
  is the empty list when the key is absent or has no continuation lines. The lines that
  follow the assignment continue it when the assignment line ends with the marker. A
  line with the marker gives its text before the marker; the first line without the
  marker ends the group and gives its text, unless it is blank: a blank line holds no
  entry.
\<close>

definition continued :: "string \<Rightarrow> bool" where
  "continued l = (l \<noteq> [] \<and> last l = BSL)"

fun collect_continuation :: "string list \<Rightarrow> string list" where
  "collect_continuation [] = []"
| "collect_continuation (l # ls) =
     (let t = trim l
      in if t = [] then []
         else if continued t then trim (butlast t) # collect_continuation ls
         else [t])"

definition extractMultiLineInfo :: "string list \<Rightarrow> string \<Rightarrow> string \<Rightarrow> string list" where
  "extractMultiLineInfo ops name makefile =
     (case find_assignment ops name (text_lines makefile) of
        None \<Rightarrow> []
      | Some (v, rest) \<Rightarrow> if continued (trim v) then collect_continuation rest else [])"

text \<open>
  Modelled from the spec: \<^verbatim>\<open>extractlibraries\<close>, whose body is missing. Section 4.5: a
  hybrid of the single-line and the multi-line rule that cuts the value of the
  \<^verbatim>\<open>libraries\<close> assignment at whitespace and keeps, in their order, the tokens that
  start with the library marker \<^verbatim>\<open>-l\<close>. The value is what stands on the assignment
  line and, when that line is continued, on its continuation lines. The variable is
  \<^verbatim>\<open>libraries\<close>, as the test \<^verbatim>\<open>getlibraries\<close> writes it.
\<close>

fun tokens_from :: "string \<Rightarrow> string \<Rightarrow> string list" where
  "tokens_from w [] = (if w = [] then [] else [w])"
| "tokens_from w (c # cs) =
     (if is_space c then (if w = [] then tokens_from [] cs else w # tokens_from [] cs)
      else tokens_from (w @ [c]) cs)"

definition tokens :: "string \<Rightarrow> string list" where
  "tokens s = tokens_from [] s"

definition libraries_value :: "string list \<Rightarrow> string \<Rightarrow> string list" where
  "libraries_value ops makefile =
     (case find_assignment ops ''libraries'' (text_lines makefile) of
        None \<Rightarrow> []
      | Some (v, rest) \<Rightarrow>
          (let t = trim v
           in if continued t then butlast t # collect_continuation rest else [t]))"

definition extractlibraries :: "string list \<Rightarrow> string \<Rightarrow> string list" where
  "extractlibraries ops makefile =
     filter (prefix ''-l'') (concat (map tokens (libraries_value ops makefile)))"


record ExtractedMakefileInfo =
  cSources :: "string list"
  cxxSources :: "string list"
  assemblySources :: "string list"
  cIncludeDirectories :: "string list"
  cDefinitions :: "string list"
  cxxDefinitions :: "string list"
  assemblyDefinitions :: "string list"
  libraries :: "string list"
  libraryDirectories :: "string list"


section \<open>The round trip through the generated text\<close>



definition generated_operators :: "string list" where
  "generated_operators = [''='', ''+='', '':='', ''?='']"

text \<open>
  A text that keeps to its line holds no line feed.
\<close>

definition single_line :: "string \<Rightarrow> bool" where
  "single_line s = (CHR ''\<newline>'' \<notin> set s)"

definition single_line_option :: "string option \<Rightarrow> bool" where
  "single_line_option x = (case x of None \<Rightarrow> True | Some s \<Rightarrow> single_line s)"









text \<open>
  A single value is written into one line of the template. When the value holds line
  feeds, what follows its first line feed makes lines of its own in the generated
  text; the value is quiet for a variable when none of these lines reads as an
  assignment to the variable. A value without a line feed adds no line and is quiet.
\<close>

definition quiet :: "string \<Rightarrow> string \<Rightarrow> bool" where
  "quiet name s =
     list_all (\<lambda>l. assignment_value generated_operators name l = None) (tl (text_lines s))"

definition adds_no_assignment :: "string list \<Rightarrow> string \<Rightarrow> bool" where
  "adds_no_assignment later s = list_all (\<lambda>name. quiet name s) later"


text \<open>
  The single values that the template writes before the last list, each together with
  what the template writes behind it on the same line: in the first piece of the
  template the names of the environment file and of the Makefile, the target and the
  optimization; in the piece of the flags the MCU flags, the extra compiler flags and
  the linker script.
\<close>

definition head_values :: "string \<Rightarrow> string \<Rightarrow> MakeInfo \<Rightarrow> string list" where
  "head_values STM32_ENVIRONMENT_FILE_NAME makefileName makeInfo =
     [STM32_ENVIRONMENT_FILE_NAME @ ''.'',
      makefileName @ '' DEBUG=0 OPTIMIZATION=-Os'',
      STM32_ENVIRONMENT_FILE_NAME,
      target makeInfo,
      makefileName @ '' -j 16  OPTIMIZATION=Os'',
      optimization makeInfo]"

definition flags_values :: "MakeInfo \<Rightarrow> string list" where
  "flags_values makeInfo =
     [createPrefixWhenNoneExists (cpu makeInfo) ''-mcpu='',
      createPrefixWhenNoneExists (fpu makeInfo) ''-mfpu='',
      createPrefixWhenNoneExists (floatAbi makeInfo) ''-mfloat-abi='',
      createSingleLineStringList (cFlags makeInfo) None,
      createSingleLineStringList (cxxFlags makeInfo) None,
      createSingleLineStringList (assemblyFlags makeInfo) None,
      ldscript makeInfo]"



section \<open>A sample configuration\<close>

text \<open>
  A \<^verbatim>\<open>MakeInfo\<close> of the kind the extension builds for an STM32H7 project; the
  theorems below are instantiated on it.
\<close>

definition sampleMakeInfo :: MakeInfo where
  "sampleMakeInfo =
     \<lparr>target = ''firmware'',
      optimization = ''-Os'',
      cDefs = [''USE_HAL_DRIVER'', ''STM32H743xx'', ''USE_HAL_DRIVER''],
      cxxDefs = [],
      asDefs = [],
      cSources = [''Src/main.c'', ''Src/gpio.c''],
      cxxSources = [''Src/app.cpp''],
      asmSources = [''startup_stm32h743xx.s''],
      cIncludes = [''Inc'', ''Drivers/CMSIS/Include''],
      cpu = Some ''cortex-m7'',
      fpu = Some ''fpv5-d16'',
      floatAbi = Some ''hard'',
      cFlags = [''-Wall''],
      cxxFlags = [],
      assemblyFlags = [],
      ldscript = ''STM32H743ZITx_FLASH.ld'',
      libs = [''c'', ''m'', ''nosys''],
      libdir = [],
      ldFlags = [],
      targetMCU = ''stm32h7x'',
      tools = \<lparr>armToolchainPath = Str ''/opt/gcc-arm/bin''\<rparr>,
      customMakefileRules = Some []\<rparr>"

section \<open>Verified properties\<close>

subsection \<open>Deduplication and sorting\<close>

lemma set_uniq_into: "set (uniq_into result xs) = set result \<union> set xs"
  by (induction xs arbitrary: result) auto

lemma distinct_uniq_into: "distinct result \<Longrightarrow> distinct (uniq_into result xs)"
  by (induction xs arbitrary: result) auto

lemma set_uniq: "set (uniq arr) = set arr"
  by (simp add: uniq_def set_uniq_into)

lemma distinct_uniq: "distinct (uniq arr)"
  by (simp add: uniq_def distinct_uniq_into)

text \<open>
  Sorting what \<^const>\<open>uniq\<close> keeps gives the list that sorting the result of the
  library's \<^const>\<open>remdups\<close> gives: both are the strictly ascending list of the
  values of the array.
\<close>

lemma sort_uniq: "sort (uniq arr) = sort (remdups arr)"
proof (rule sorted_distinct_set_unique)
  show "sorted (sort (uniq arr))" by simp
  show "distinct (sort (uniq arr))" by (simp add: distinct_uniq)
  show "sorted (sort (remdups arr))" by simp
  show "distinct (sort (remdups arr))" by simp
  show "set (sort (uniq arr)) = set (sort (remdups arr))" by (simp add: set_uniq)
qed

lemma sort_uniq_cong: "set xs = set ys \<Longrightarrow> sort (uniq xs) = sort (uniq ys)"
  by (simp add: sort_uniq sorted_list_of_set_sort_remdups [symmetric])

subsection \<open>The string-list formatters\<close>

lemma append_if_truthy_eq: "append_if_truthy out pfx = out @ prefix_text pfx"
  by (cases pfx) (simp_all add: prefix_text_def)

lemma createStringList_loop_eq:
  "n = ind + length rest \<Longrightarrow>
   createStringList_loop pfx n out ind rest =
     out @ continued_lines (map (\<lambda>entry. prefix_text pfx @ entry) rest)"
proof (induction rest arbitrary: out ind)
  case Nil
  then show ?case by simp
next
  case (Cons entry rest)
  let ?f = "\<lambda>entry. prefix_text pfx @ entry"
  from Cons.prems have n: "n = Suc ind + length rest" by simp
  have step: "createStringList_entry pfx n out entry ind @ continued_lines (map ?f rest)
      = out @ continued_lines (map ?f (entry # rest))"
  proof (cases rest)
    case Nil
    with Cons.prems show ?thesis
      by (simp add: createStringList_entry_def append_if_truthy_eq)
  next
    case (Cons entry' rest')
    with n have "int ind < int n - 1" by simp
    with Cons show ?thesis
      by (simp add: createStringList_entry_def append_if_truthy_eq)
  qed
  have "createStringList_loop pfx n out ind (entry # rest)
      = createStringList_loop pfx n (createStringList_entry pfx n out entry ind) (Suc ind) rest"
    by simp
  also have "\<dots> = createStringList_entry pfx n out entry ind @ continued_lines (map ?f rest)"
    by (rule Cons.IH [OF n])
  finally show ?case using step by simp
qed

lemma createStringList_eq:
  "createStringList arr pfx =
     continued_lines (map (\<lambda>entry. prefix_text pfx @ entry) (sort (remdups arr)))"
  by (simp add: createStringList_def Let_def sort_uniq createStringList_loop_eq)

text \<open>
  Claim C4. For every list of strings and optional prefix, \<^const>\<open>createStringList\<close>
  removes the duplicates, sorts the entries in ascending lexicographic order, and
  writes one line per entry: the prefix, the entry, a space and a backslash on every
  line but the last, and a line feed on every line, the last included. On the empty
  list it returns the empty string.
\<close>

theorem createStringList_spec:
  "(let es = sort (remdups arr)
    in distinct es \<and> sorted es \<and> set es = set arr \<and>
       createStringList arr pfx =
         continued_lines (map (\<lambda>entry. prefix_text pfx @ entry) es))
   \<and> createStringList [] pfx = []"
  by (simp add: createStringList_eq Let_def)

theorem createStringList_spec_witness:
  "createStringList [''b.c'', ''a.c'', ''b.c''] (Some ''-I'') =
     ''-Ia.c '' @ [BSL] @ ''\<newline>-Ib.c\<newline>''"
  using createStringList_spec [of "[''b.c'', ''a.c'', ''b.c'']" "Some ''-I''"]
  by (simp add: prefix_text_def)

text \<open>
  Claim C5. Two lists of strings that are permutations of each other, duplicates
  allowed, give the same text under \<^const>\<open>createStringList\<close> and under
  \<^const>\<open>createSingleLineStringList\<close>. Both are functions of their arguments alone (the
  source keeps its accumulator in a local variable), so a second call on the same
  input returns the same text as the first.
\<close>

theorem formatters_permutation_invariant:
  "mset xs = mset ys \<Longrightarrow>
     createStringList xs pfx = createStringList ys pfx \<and>
     createSingleLineStringList xs pfx = createSingleLineStringList ys pfx"
proof -
  assume "mset xs = mset ys"
  then have "set xs = set ys" by (rule mset_eq_setD)
  then have "sort (uniq xs) = sort (uniq ys)" by (rule sort_uniq_cong)
  then show ?thesis
    by (simp add: createStringList_def createSingleLineStringList_def)
qed

theorem formatters_permutation_invariant_witness:
  "mset [''b'', ''a'', ''b''] = mset [''a'', ''b'', ''b''] \<and>
   createStringList [''b'', ''a'', ''b''] None = createStringList [''a'', ''b'', ''b''] None \<and>
   createSingleLineStringList [''b'', ''a'', ''b''] None =
     createSingleLineStringList [''a'', ''b'', ''b''] None"
proof -
  have h: "mset [''b'', ''a'', ''b''] = mset [''a'', ''b'', ''b'']" by simp
  show ?thesis using h formatters_permutation_invariant [OF h, of None] by simp
qed

subsection \<open>Conditional prefixing\<close>

lemma indexOf_from_found: "indexOf_from i s p \<ge> 0 \<longleftrightarrow> sublist p s"
proof (induction s arbitrary: i)
  case Nil
  then show ?case by simp
next
  case (Cons c s)
  show ?case
  proof (cases "prefix p (c # s)")
    case True
    then show ?thesis by (auto simp: sublist_Cons_right)
  next
    case False
    then show ?thesis using Cons.IH [of "Suc i"] by (simp add: sublist_Cons_right)
  qed
qed

lemma indexOf_nonneg: "indexOf s p \<ge> 0 \<longleftrightarrow> sublist p s"
  by (simp add: indexOf_def indexOf_from_found)

text \<open>
  Claim C6. \<^const>\<open>createPrefixWhenNoneExists\<close> returns the empty string for an absent
  or empty token; it returns the token unchanged when the prefix occurs anywhere in
  it; otherwise it puts the prefix in front, once. Applying it to its own result
  changes nothing.
\<close>

theorem createPrefixWhenNoneExists_spec:
  "createPrefixWhenNoneExists None p = [] \<and>
   createPrefixWhenNoneExists (Some []) p = [] \<and>
   (sublist p x \<longrightarrow> createPrefixWhenNoneExists (Some x) p = x) \<and>
   (x \<noteq> [] \<and> \<not> sublist p x \<longrightarrow> createPrefixWhenNoneExists (Some x) p = p @ x) \<and>
   createPrefixWhenNoneExists (Some (createPrefixWhenNoneExists input p)) p
     = createPrefixWhenNoneExists input p"
proof -
  have contains: "sublist p (p @ x)" for x :: string
    by (simp add: sublist_def) (metis append_Nil)
  have idem: "createPrefixWhenNoneExists (Some (createPrefixWhenNoneExists input p)) p
     = createPrefixWhenNoneExists input p"
    using contains
    by (cases input) (simp_all add: createPrefixWhenNoneExists_def indexOf_nonneg)
  show ?thesis
    using idem by (auto simp: createPrefixWhenNoneExists_def indexOf_nonneg)
qed

theorem createPrefixWhenNoneExists_spec_witness:
  "createPrefixWhenNoneExists (Some ''m7'') ''-m='' = ''-m=m7'' \<and>
   createPrefixWhenNoneExists (Some ''-m=m7'') ''-m='' = ''-m=m7''"
proof -
  have a: "\<not> sublist ''-m='' ''m7''"
    by (simp add: sublist_Cons_right)
  have b: "sublist ''-m='' ''-m=m7''"
    by (simp add: sublist_Cons_right)
  show ?thesis
    using a b createPrefixWhenNoneExists_spec [of "''-m=''" "''m7''" None]
      createPrefixWhenNoneExists_spec [of "''-m=''" "''-m=m7''" None]
    by simp
qed

subsection \<open>The toolchain path\<close>

text \<open>
  Claim C10. \<^const>\<open>createGCCPathOutput\<close> returns the empty string when the toolchain
  path is absent, is not a string, is the empty string or is \<^verbatim>\<open>.\<close>; otherwise it
  returns \<^verbatim>\<open>GCC_PATH="\<close> followed by the path in POSIX form, and nothing after it:
  the double quote it opens is not closed.
\<close>

theorem createGCCPathOutput_spec:
  \<open>createGCCPathOutput fsPathToPosix makeInfo =
     (case armToolchainPath (tools makeInfo) of
        Str s \<Rightarrow> if s = [] \<or> s = ''.'' then [] else ''GCC_PATH="'' @ fsPathToPosix s
      | Boolean b \<Rightarrow> []
      | Undefined \<Rightarrow> [])\<close>
  by (cases "armToolchainPath (tools makeInfo)") (simp_all add: createGCCPathOutput_def)

theorem createGCCPathOutput_spec_witness:
  \<open>createGCCPathOutput (\<lambda>p. p) sampleMakeInfo = ''GCC_PATH="/opt/gcc-arm/bin''\<close>
  using createGCCPathOutput_spec [of "\<lambda>p. p" sampleMakeInfo]
  by (simp add: sampleMakeInfo_def)

subsection \<open>Sorting scanned files\<close>

lemma elements_push [simp]: "elements (push arr x) = elements arr @ [x]"
  by (simp add: push_def)

lemma sortFiles_entry_cSources:
  "elements (BuildFiles.cSources (sortFiles_entry dirname acc entry)) =
     elements (BuildFiles.cSources acc) @ (if extension_of entry = ''c'' then [entry] else [])"
  by (simp add: sortFiles_entry_def Let_def)

lemma sortFiles_entry_cxxSources:
  "elements (BuildFiles.cxxSources (sortFiles_entry dirname acc entry)) =
     elements (BuildFiles.cxxSources acc) @
       (if extension_of entry \<in> {''cpp'', ''cxx'', ''cc''} then [entry] else [])"
  by (simp add: sortFiles_entry_def Let_def)

lemma sortFiles_entry_assemblySources:
  "elements (BuildFiles.assemblySources (sortFiles_entry dirname acc entry)) =
     elements (BuildFiles.assemblySources acc) @ (if extension_of entry = ''s'' then [entry] else [])"
  by (simp add: sortFiles_entry_def Let_def)

lemma sortFiles_entry_libraryDirectories:
  "elements (BuildFiles.libraryDirectories (sortFiles_entry dirname acc entry)) =
     elements (BuildFiles.libraryDirectories acc) @
       (if extension_of entry = ''a'' then [dirname entry] else [])"
  by (simp add: sortFiles_entry_def Let_def)

lemma sortFiles_pass_cSources:
  "elements (BuildFiles.cSources (foldl (sortFiles_entry dirname) acc list)) =
     elements (BuildFiles.cSources acc) @ filter (\<lambda>entry. extension_of entry = ''c'') list"
  by (induction list arbitrary: acc) (simp_all add: sortFiles_entry_cSources)

lemma sortFiles_pass_cxxSources:
  "elements (BuildFiles.cxxSources (foldl (sortFiles_entry dirname) acc list)) =
     elements (BuildFiles.cxxSources acc) @
       filter (\<lambda>entry. extension_of entry \<in> {''cpp'', ''cxx'', ''cc''}) list"
  by (induction list arbitrary: acc) (simp_all add: sortFiles_entry_cxxSources)

lemma sortFiles_pass_assemblySources:
  "elements (BuildFiles.assemblySources (foldl (sortFiles_entry dirname) acc list)) =
     elements (BuildFiles.assemblySources acc) @ filter (\<lambda>entry. extension_of entry = ''s'') list"
  by (induction list arbitrary: acc) (simp_all add: sortFiles_entry_assemblySources)

lemma sortFiles_pass_libraryDirectories:
  "elements (BuildFiles.libraryDirectories (foldl (sortFiles_entry dirname) acc list)) =
     elements (BuildFiles.libraryDirectories acc) @
       map dirname (filter (\<lambda>entry. extension_of entry = ''a'') list)"
  by (induction list arbitrary: acc) (simp_all add: sortFiles_entry_libraryDirectories)

lemma elements_tidy [simp]: "elements (sortFiles_tidy key entry) = sort (elements entry)"
  by (simp add: sortFiles_tidy_def array_sort_def lodash_set_def)

text \<open>
  The tidying step sorts every bucket, and it stores the array without duplicates
  under a property of the bucket itself, named like the bucket.
\<close>

lemma sortFiles_buckets_sorted:
  "sorted (elements (BuildFiles.cSources (sortFiles dirname list))) \<and>
   sorted (elements (BuildFiles.cxxSources (sortFiles dirname list))) \<and>
   sorted (elements (BuildFiles.assemblySources (sortFiles dirname list))) \<and>
   sorted (elements (BuildFiles.libraryDirectories (sortFiles dirname list)))"
  by (simp add: sortFiles_def Let_def)

lemma sortFiles_tidy_named:
  "named (sortFiles_tidy key entry) key = Some (uniq (elements entry))"
  by (simp add: sortFiles_tidy_def array_sort_def lodash_set_def)

text \<open>
  Claim C2 says that every bucket of the result of \<^const>\<open>sortFiles\<close> is sorted and
  free of duplicates. The buckets are sorted (\<open>sortFiles_buckets_sorted\<close>), but a file
  listed twice stays twice in its bucket: on the list \<^verbatim>\<open>["main.c", "main.c"]\<close> the
  bucket \<^verbatim>\<open>cSources\<close> holds \<^verbatim>\<open>main.c\<close> two times. The comment in the source announces
  the removal of duplicates; the call \<^verbatim>\<open>_.set(entry, key, _.uniq(entry))\<close> writes the
  array without duplicates into the bucket array, not into \<^verbatim>\<open>output\<close>.
\<close>

theorem sortFiles_keeps_duplicates:
  "elements (BuildFiles.cSources (sortFiles (\<lambda>p. ''.'') [''main.c'', ''main.c'']))
     = [''main.c'', ''main.c''] \<and>
   \<not> distinct (elements (BuildFiles.cSources (sortFiles (\<lambda>p. ''.'') [''main.c'', ''main.c''])))"
  by (simp add: sortFiles_def sortFiles_entry_def extension_of_def pop_def lower_char_def
      Let_def new_BuildFiles_def empty_array_def)

text \<open>
  Claim C9. \<^const>\<open>sortFiles\<close> classifies every entry by \<^const>\<open>extension_of\<close>, the text
  after its last dot (the whole entry when it holds no dot) in lower case: the entries with \<^verbatim>\<open>c\<close> make up \<^verbatim>\<open>cSources\<close>, those
  with \<^verbatim>\<open>cpp\<close>, \<^verbatim>\<open>cxx\<close> or \<^verbatim>\<open>cc\<close> make up \<^verbatim>\<open>cxxSources\<close>, those with \<^verbatim>\<open>s\<close> make up
  \<^verbatim>\<open>assemblySources\<close>, and \<^verbatim>\<open>libraryDirectories\<close> holds the parent directory of every
  entry with \<^verbatim>\<open>a\<close>, not the entry. The buckets hold nothing else, so an entry with
  any other extension, \<^verbatim>\<open>h\<close> and \<^verbatim>\<open>hpp\<close> included, is in no bucket. Each bucket is
  given in the order the final sort leaves it in.
\<close>

theorem sortFiles_classifies:
  "elements (BuildFiles.cSources (sortFiles dirname list)) =
     sort (filter (\<lambda>entry. extension_of entry = ''c'') list) \<and>
   elements (BuildFiles.cxxSources (sortFiles dirname list)) =
     sort (filter (\<lambda>entry. extension_of entry \<in> {''cpp'', ''cxx'', ''cc''}) list) \<and>
   elements (BuildFiles.assemblySources (sortFiles dirname list)) =
     sort (filter (\<lambda>entry. extension_of entry = ''s'') list) \<and>
   elements (BuildFiles.libraryDirectories (sortFiles dirname list)) =
     sort (map dirname (filter (\<lambda>entry. extension_of entry = ''a'') list))"
  by (simp add: sortFiles_def Let_def sortFiles_pass_cSources sortFiles_pass_cxxSources
      sortFiles_pass_assemblySources sortFiles_pass_libraryDirectories
      new_BuildFiles_def empty_array_def)

theorem sortFiles_classifies_witness:
  "elements (BuildFiles.cSources
      (sortFiles (\<lambda>p. ''Lib'') [''Src/main.C'', ''Inc/main.h'', ''Lib/libm.a'', ''a.hpp'', ''README'']))
     = [''Src/main.C''] \<and>
   elements (BuildFiles.libraryDirectories
      (sortFiles (\<lambda>p. ''Lib'') [''Src/main.C'', ''Inc/main.h'', ''Lib/libm.a'', ''a.hpp'', ''README'']))
     = [''Lib''] \<and>
   elements (BuildFiles.cxxSources
      (sortFiles (\<lambda>p. ''Lib'') [''Src/main.C'', ''Inc/main.h'', ''Lib/libm.a'', ''a.hpp'', ''README'']))
     = [] \<and>
   elements (BuildFiles.assemblySources
      (sortFiles (\<lambda>p. ''Lib'') [''Src/main.C'', ''Inc/main.h'', ''Lib/libm.a'', ''a.hpp'', ''README'']))
     = []"
proof -
  have e: "extension_of ''Src/main.C'' = ''c''" "extension_of ''Inc/main.h'' = ''h''"
    "extension_of ''Lib/libm.a'' = ''a''" "extension_of ''a.hpp'' = ''hpp''"
    "extension_of ''README'' = ''readme''"
    by code_simp+
  show ?thesis
    using sortFiles_classifies
      [of "\<lambda>p. ''Lib''" "[''Src/main.C'', ''Inc/main.h'', ''Lib/libm.a'', ''a.hpp'', ''README'']"]
    by (simp add: e)
qed

subsection \<open>The custom rules in the generated Makefile\<close>

lemma concat_take_drop: "concat xs = concat (take n xs) @ concat (drop n xs)"
  by (metis append_take_drop_id concat_append)

lemma lines_text_take_drop: "lines_text ls = lines_text (take n ls) @ lines_text (drop n ls)"
  unfolding lines_text_def by (metis append_take_drop_id concat_append map_append)

text \<open>
  Claim C3. When the list of custom rules is empty or absent, \<^const>\<open>customMakefileRules\<close>
  returns the empty string, and the generated Makefile ends with the fixed text of the
  template alone: the heading of the section of custom rules, the line feeds and the
  tab of the template, and the section of dependencies. No banner of a rule and no
  further blank lines stand between them.
\<close>

theorem createMakefile_without_custom_rules:
  assumes "MakeInfo.customMakefileRules makeInfo = None \<or>
           MakeInfo.customMakefileRules makeInfo = Some []"
  shows "customMakefileRules makeInfo = [] \<and>
         suffix (''#######################################\<newline>'' @
             ''# custom makefile rules\<newline>'' @
             ''#######################################\<newline>'' @
             ''\<newline>'' @
             ''\<newline>'' @
             [TAB] @ ''\<newline>'' @
             ''#######################################\<newline>'' @
             ''# dependencies\<newline>'' @
             ''#######################################\<newline>'' @
             ''-include $(wildcard $(RELEASE_DIRECTORY)/*.d)\<newline>'' @
             ''\<newline>'' @
             ''# *** EOF ***'')
           (createMakefile STM32_ENVIRONMENT_FILE_NAME makefileName makeInfo)"
proof
  show r: "customMakefileRules makeInfo = []"
    using assms by (auto simp: customMakefileRules_def)
  show "suffix (''#######################################\<newline>'' @
             ''# custom makefile rules\<newline>'' @
             ''#######################################\<newline>'' @
             ''\<newline>'' @
             ''\<newline>'' @
             [TAB] @ ''\<newline>'' @
             ''#######################################\<newline>'' @
             ''# dependencies\<newline>'' @
             ''#######################################\<newline>'' @
             ''-include $(wildcard $(RELEASE_DIRECTORY)/*.d)\<newline>'' @
             ''\<newline>'' @
             ''# *** EOF ***'')
           (createMakefile STM32_ENVIRONMENT_FILE_NAME makefileName makeInfo)"
    apply (simp only: createMakefile_def)
    apply (subst concat_take_drop [where n = 18])
    apply (rule suffix_appendI)
    apply (simp add: r)
    apply (subst lines_text_take_drop [where n = 191])
    apply (simp only: append_assoc)
    apply (rule suffix_appendI)
    apply (simp add: makefile_lines_tools_and_rules_def makefile_lines_dependencies_def
        lines_text_def line_def)
    done
qed

theorem createMakefile_without_custom_rules_witness:
  "customMakefileRules sampleMakeInfo = [] \<and>
   suffix (''#######################################\<newline>'' @
       ''# custom makefile rules\<newline>'' @
       ''#######################################\<newline>'' @
       ''\<newline>'' @
       ''\<newline>'' @
       [TAB] @ ''\<newline>'' @
       ''#######################################\<newline>'' @
       ''# dependencies\<newline>'' @
       ''#######################################\<newline>'' @
       ''-include $(wildcard $(RELEASE_DIRECTORY)/*.d)\<newline>'' @
       ''\<newline>'' @
       ''# *** EOF ***'')
     (createMakefile ''.stm32env'' ''STM32Make.make'' sampleMakeInfo)"
proof -
  have h: "MakeInfo.customMakefileRules sampleMakeInfo = None \<or>
           MakeInfo.customMakefileRules sampleMakeInfo = Some []"
    by (simp add: sampleMakeInfo_def)
  show ?thesis
    using createMakefile_without_custom_rules [OF h, of "''.stm32env''" "''STM32Make.make''"]
    by simp
qed

subsection \<open>Prefix removal\<close>

lemma removePrefix_append: "removePrefix pfx (pfx @ entry) = entry"
  by (simp add: removePrefix_def)

lemma removePrefixes_prefixed: "removePrefixes (map (\<lambda>entry. pfx @ entry) entries) pfx = entries"
  by (induction entries) (simp_all add: removePrefixes_def removePrefix_append)

lemma removePrefix_cases:
  "(prefix pfx entry \<longrightarrow> pfx @ removePrefix pfx entry = entry) \<and>
   (\<not> prefix pfx entry \<longrightarrow> removePrefix pfx entry = entry)"
  by (auto simp: removePrefix_def prefix_def)

text \<open>
  Claim C7. Prefix removal works entry by entry, on every list: the result has the
  length of the input; at every position, an entry that starts with the prefix loses
  that one leading occurrence and keeps the remainder, blanks included (putting the
  prefix back in front of the result gives the entry), and an entry that does not start
  with the prefix passes through unchanged. On the list of the test
  \<^verbatim>\<open>remove prefixes\<close> it gives the list that the test expects.
\<close>

theorem removePrefixes_spec:
  "length (removePrefixes information pfx) = length information \<and>
   (\<forall>i < length information.
      (prefix pfx (information ! i) \<longrightarrow>
         pfx @ (removePrefixes information pfx ! i) = information ! i) \<and>
      (\<not> prefix pfx (information ! i) \<longrightarrow>
         removePrefixes information pfx ! i = information ! i)) \<and>
   removePrefixes (map (\<lambda>entry. pfx @ entry) entries) pfx = entries \<and>
   removePrefixes [''-lentry1'', ''-lentry_two-l'', ''-l entry three''] ''-l''
     = [''entry1'', ''entry_two-l'', '' entry three'']"
proof -
  have len: "length (removePrefixes information pfx) = length information"
    by (simp add: removePrefixes_def)
  have each: "\<forall>i < length information.
      (prefix pfx (information ! i) \<longrightarrow>
         pfx @ (removePrefixes information pfx ! i) = information ! i) \<and>
      (\<not> prefix pfx (information ! i) \<longrightarrow>
         removePrefixes information pfx ! i = information ! i)"
    using removePrefix_cases by (simp add: removePrefixes_def)
  have test: "removePrefixes [''-lentry1'', ''-lentry_two-l'', ''-l entry three''] ''-l''
     = [''entry1'', ''entry_two-l'', '' entry three'']"
    by (simp add: removePrefixes_def removePrefix_def)
  from len each removePrefixes_prefixed test show ?thesis
    by blast
qed

theorem removePrefixes_spec_witness:
  "removePrefixes [''-lc'', ''m'', ''-l-lx''] ''-l'' = [''c'', ''m'', ''-lx'']"
proof -
  let ?xs = "[''-lc'', ''m'', ''-l-lx'']"
  have p: "prefix ''-l'' (?xs ! 0)" "\<not> prefix ''-l'' (?xs ! 1)" "prefix ''-l'' (?xs ! 2)"
    by simp_all
  from removePrefixes_spec [of ?xs "''-l''" "[]"]
  have len: "length (removePrefixes ?xs ''-l'') = 3"
    and each: "\<forall>i < length ?xs.
      (prefix ''-l'' (?xs ! i) \<longrightarrow> ''-l'' @ (removePrefixes ?xs ''-l'' ! i) = ?xs ! i) \<and>
      (\<not> prefix ''-l'' (?xs ! i) \<longrightarrow> removePrefixes ?xs ''-l'' ! i = ?xs ! i)"
    by simp_all
  from each p have "''-l'' @ (removePrefixes ?xs ''-l'' ! 0) = ?xs ! 0"
    "removePrefixes ?xs ''-l'' ! 1 = ?xs ! 1" "''-l'' @ (removePrefixes ?xs ''-l'' ! 2) = ?xs ! 2"
    by (simp_all del: nth_Cons_0 nth_Cons_Suc)
  then have v: "removePrefixes ?xs ''-l'' ! 0 = ''c''" "removePrefixes ?xs ''-l'' ! 1 = ''m''"
    "removePrefixes ?xs ''-l'' ! 2 = ''-lx''"
    by simp_all
  have "removePrefixes ?xs ''-l'' = map (\<lambda>i. removePrefixes ?xs ''-l'' ! i) [0..<3]"
    using len by (metis map_nth)
  also have "\<dots> = [''c'', ''m'', ''-lx'']"
    using v by (simp add: upt_rec [of 0] upt_rec [of 1] upt_rec [of 2] numeral_3_eq_3 numeral_2_eq_2)
  finally show ?thesis .
qed

subsection \<open>The multi-line rule\<close>



lemma split_no_sep: "sep \<notin> set l \<Longrightarrow> split sep l = [l]"
  by (induction l) (auto split: list.splits)











lemma trim_Nil [simp]: "trim [] = []"
  by (simp add: trim_def)
























text \<open>
  The multi-line rule on a text in the layout of a CubeMX Makefile, read under the
  name \<^verbatim>\<open>C_DEFS\<close> that the test \<^verbatim>\<open>extractMultiLineInfo\<close> asks for, and the test
  \<^verbatim>\<open>getlibraries\<close> of the repository on the library rule.
\<close>

lemma extractMultiLineInfo_C_DEFS:
  "extractMultiLineInfo [''='', ''+=''] ''C_DEFS''
     (''# C defines\<newline>C_DEFS =  '' @ [BSL] @ ''\<newline>-DUSE_HAL_DRIVER '' @ [BSL] @
      ''\<newline>-DSTM32H743xx\<newline>\<newline># AS includes\<newline>'')
     = [''-DUSE_HAL_DRIVER'', ''-DSTM32H743xx'']"
  by code_simp

lemma extractlibraries_test:
  "extractlibraries [''='', ''+='']
     ''libraries = -llib -lotherlib -lsomeotherotherLib -lstdc++\<newline>''
     = [''-llib'', ''-lotherlib'', ''-lsomeotherotherLib'', ''-lstdc++'']"
  by code_simp

subsection \<open>The round trip through the generated text\<close>

subsubsection \<open>The lines of the generated text\<close>

text \<open>
  Cutting a text at its line feeds gives back the lines it was put together from; a
  line that holds line feeds itself is cut as well.
\<close>

lemma text_lines_single: "single_line l \<Longrightarrow> text_lines l = [l]"
  by (simp add: text_lines_def single_line_def split_no_sep)













subsubsection \<open>Lines that hold no assignment\<close>







lemma quiet_single_line: "single_line s \<Longrightarrow> quiet name s"
  by (simp add: quiet_def text_lines_single)

lemma adds_no_assignment_single_line: "single_line s \<Longrightarrow> adds_no_assignment later s"
  by (simp add: adds_no_assignment_def list_all_iff quiet_single_line)

subsubsection \<open>Trimming and collecting the entries of a block\<close>







text \<open>
  The entries that are kept: written behind a prefix that neither starts nor ends
  with a blank, or without a prefix, they are what trimming leaves.
\<close>

lemma single_line_Nil [simp]: "single_line []"
  by (simp add: single_line_def)

lemma single_line_Cons [simp]: "single_line (c # s) = (c \<noteq> CHR ''\<newline>'' \<and> single_line s)"
  by (auto simp: single_line_def)

lemma single_line_append [simp]: "single_line (a @ b) = (single_line a \<and> single_line b)"
  by (auto simp: single_line_def)




lemma list_all_sort_uniq: "list_all P (sort (uniq arr)) = list_all P arr"
  by (simp add: list_all_iff set_uniq)








lemma tokens_Nil [simp]: "tokens [] = []"
  by (simp add: tokens_def)




subsubsection \<open>The assignments in the pieces of the template\<close>






















subsubsection \<open>The generated text, line by line\<close>









subsubsection \<open>Where each variable is found\<close>













subsubsection \<open>The round trip\<close>





text \<open>
  Single values without a line feed add no line to the generated text, so they add no
  assignment.
\<close>

lemma single_line_createPrefixWhenNoneExists:
  "single_line_option x \<Longrightarrow> single_line p \<Longrightarrow> single_line (createPrefixWhenNoneExists x p)"
  by (cases x) (simp_all add: createPrefixWhenNoneExists_def single_line_option_def)

lemma foldl_single_line:
  "foldl (createSingleLineStringList_entry pfx) out es =
     out @ concat (map (\<lambda>entry. prefix_text pfx @ entry @ '' '') es)"
  by (induction es arbitrary: out)
     (simp_all add: createSingleLineStringList_entry_def append_if_truthy_eq)

lemma single_line_concat: "list_all single_line xs \<Longrightarrow> single_line (concat xs)"
  by (induction xs) simp_all

lemma single_line_createSingleLineStringList:
  assumes "list_all single_line arr"
  shows "single_line (createSingleLineStringList arr None)"
proof -
  from assms have "list_all single_line (sort (uniq arr))"
    by (simp add: list_all_sort_uniq)
  then have "list_all single_line (map (\<lambda>entry. prefix_text None @ entry @ '' '') (sort (uniq arr)))"
    by (simp add: list_all_iff prefix_text_def)
  then show ?thesis
    by (simp add: createSingleLineStringList_def foldl_single_line single_line_concat)
qed

lemma single_values_ready:
  assumes "single_line e" "single_line k" "single_line (target m)" "single_line (optimization m)"
    and "single_line_option (cpu m)" "single_line_option (fpu m)" "single_line_option (floatAbi m)"
    and "list_all single_line (cFlags m)" "list_all single_line (cxxFlags m)"
      "list_all single_line (assemblyFlags m)" "single_line (ldscript m)"
  shows "list_all (adds_no_assignment later) (head_values e k m)"
    "list_all (adds_no_assignment later) (flags_values m)"
  using assms
  by (simp_all add: head_values_def flags_values_def adds_no_assignment_single_line
      single_line_createPrefixWhenNoneExists single_line_createSingleLineStringList)





end
